theory Spec2Isabelle
  imports Complex_Main "HOL-Library.AList"
begin

section \<open>Polyhedron partitions (slabbe/polyhedron_partition.py)\<close>

subsection \<open>Keys, errors and the polyhedron primitive\<close>

text \<open>
  Keys of a partition are Python dictionary keys. The code itself creates integer keys
  (\<^verbatim>\<open>enumerate\<close>, \<^verbatim>\<open>itertools.count()\<close>); the docstrings also use strings.
\<close>

datatype key = Int_key int | Str_key string

text \<open>The base rings that occur in the module.\<close>

datatype ring = ZZ | QQ | RDF | Number_field string

text \<open>
  Exceptions are values. The payload of a message is what the source formats into the
  text of the exception: keys, vertex lists, a volume, an inequality.
\<close>

datatype 'r message =
    Atoms_not_list_or_dict
  | Intersection_not_zero key "'r list list" key "'r list list" 'r
  | In_several_atoms "'r list list" "key list"
  | In_no_atom "'r list list"
  | Ieq_does_not_intersect "'r list" nat

datatype 'r error =
  TypeError "'r message" | ValueError "'r message" | AssertionError | KeyError key

text \<open>
  The polyhedra come from Sage (\<^verbatim>\<open>sage.geometry.polyhedron.constructor.Polyhedron\<close>),
  which is not part of the repository. The operations that the module calls on them are
  the fields of a record, so that every function below is the source's function with the
  primitive as an explicit argument:
  \<^item> \<open>Polyhedron_vertices L base_ring\<close> is \<^verbatim>\<open>Polyhedron(L, base_ring=base_ring)\<close>,
  \<^item> \<open>Polyhedron_ieqs [ieq]\<close> is \<^verbatim>\<open>Polyhedron(ieqs=[ieq])\<close>,
  \<^item> \<open>poly_vertices p\<close> is \<^verbatim>\<open>p.vertices()\<close>, \<open>poly_volume p\<close> is \<^verbatim>\<open>p.volume()\<close>,
  \<^item> \<open>poly_intersection p q\<close> is \<^verbatim>\<open>p.intersection(q)\<close>,
  \<^item> \<open>poly_le p q\<close> is \<^verbatim>\<open>p <= q\<close> and \<open>poly_eq p q\<close> is \<^verbatim>\<open>p == q\<close>,
  \<^item> \<open>poly_base_ring p\<close> is \<^verbatim>\<open>p.base_ring()\<close>.
\<close>

record ('p, 'r) polyhedra =
  Polyhedron_vertices :: "'r list list \<Rightarrow> ring \<Rightarrow> 'p"
  Polyhedron_ieqs :: "'r list list \<Rightarrow> 'p"
  poly_vertices :: "'p \<Rightarrow> 'r list list"
  poly_volume :: "'p \<Rightarrow> 'r"
  poly_intersection :: "'p \<Rightarrow> 'p \<Rightarrow> 'p"
  poly_le :: "'p \<Rightarrow> 'p \<Rightarrow> bool"
  poly_eq :: "'p \<Rightarrow> 'p \<Rightarrow> bool"
  poly_base_ring :: "'p \<Rightarrow> ring"

subsection \<open>The class PolyhedronPartition\<close>

text \<open>
  A partition holds \<^verbatim>\<open>self._atoms\<close>, a dictionary from keys to polyhedra, and
  \<^verbatim>\<open>self._base_ring\<close>. The dictionary is an association list in iteration order; a
  Python dictionary has no key twice, which is \<open>distinct (map fst d)\<close> here.
\<close>

record 'p partition =
  the_atoms :: "(key \<times> 'p) list"
  the_base_ring :: "ring option"

text \<open>What the constructor can be given for \<^verbatim>\<open>atoms\<close>: a list, a dict, or anything else.\<close>

datatype 'p atoms_arg = List_arg "'p list" | Dict_arg "(key \<times> 'p) list" | Other_arg

text \<open>\<^verbatim>\<open>dict(enumerate(atoms))\<close>\<close>

definition dict_enumerate :: "'p list \<Rightarrow> (key \<times> 'p) list" where
  "dict_enumerate L = map (\<lambda>(i, a). (Int_key (int i), a)) (enumerate 0 L)"

text \<open>
  The second half of \<^verbatim>\<open>__init__\<close>. For an empty dictionary and no base ring the source
  executes \<^verbatim>\<open>base_ring == ZZ\<close>, a comparison whose value is dropped, so
  \<^verbatim>\<open>base_ring\<close> stays \<^verbatim>\<open>None\<close>. Otherwise the ring of the first atom in iteration order
  is taken.
\<close>

definition init_base_ring ::
  "('p, 'r) polyhedra \<Rightarrow> (key \<times> 'p) list \<Rightarrow> ring option \<Rightarrow> 'p partition" where
  "init_base_ring G d base_ring =
     \<lparr> the_atoms = d,
       the_base_ring =
         (case base_ring of
            None \<Rightarrow> (if length d = 0 then None else Some (poly_base_ring G (snd (hd d))))
          | Some b \<Rightarrow> Some b) \<rparr>"

definition PolyhedronPartition ::
  "('p, 'r) polyhedra \<Rightarrow> 'p atoms_arg \<Rightarrow> ring option \<Rightarrow> 'r error + 'p partition" where
  "PolyhedronPartition G atoms base_ring =
     (case atoms of
        List_arg L \<Rightarrow> Inr (init_base_ring G (dict_enumerate L) base_ring)
      | Dict_arg d \<Rightarrow> Inr (init_base_ring G d base_ring)
      | Other_arg \<Rightarrow> Inl (TypeError Atoms_not_list_or_dict))"

text \<open>
  The calls \<^verbatim>\<open>PolyhedronPartition(L)\<close> and \<^verbatim>\<open>PolyhedronPartition(d)\<close> inside the module
  pass a list or a dict and no base ring: these are the two successful branches.
\<close>

definition partition_of_list :: "('p, 'r) polyhedra \<Rightarrow> 'p list \<Rightarrow> 'p partition" where
  "partition_of_list G L = init_base_ring G (dict_enumerate L) None"

definition partition_of_dict :: "('p, 'r) polyhedra \<Rightarrow> (key \<times> 'p) list \<Rightarrow> 'p partition" where
  "partition_of_dict G d = init_base_ring G d None"

text \<open>\<^verbatim>\<open>atoms()\<close>, \<^verbatim>\<open>__len__\<close>, \<^verbatim>\<open>__getitem__\<close> (a missing key is a \<^verbatim>\<open>KeyError\<close>: \<open>None\<close>).\<close>

definition atoms :: "'p partition \<Rightarrow> 'p list" where
  "atoms P = map snd (the_atoms P)"

definition len :: "'p partition \<Rightarrow> nat" where
  "len P = length (the_atoms P)"

definition getitem :: "'p partition \<Rightarrow> key \<Rightarrow> 'p option" where
  "getitem P i = map_of (the_atoms P) i"

text \<open>
  \<^verbatim>\<open>__contains__\<close> and \<^verbatim>\<open>__eq__\<close> go through \<^verbatim>\<open>cached_atoms_set()\<close>, a Python set
  of polyhedra: membership and set equality are decided by the equality of polyhedra.
\<close>

definition contains :: "('p, 'r) polyhedra \<Rightarrow> 'p partition \<Rightarrow> 'p \<Rightarrow> bool" where
  "contains G P p = list_ex (\<lambda>a. poly_eq G p a) (atoms P)"

definition partition_eq :: "('p, 'r) polyhedra \<Rightarrow> 'p partition \<Rightarrow> 'p partition \<Rightarrow> bool" where
  "partition_eq G P Q =
     (list_all (\<lambda>p. contains G Q p) (atoms P) \<and> list_all (\<lambda>q. contains G P q) (atoms Q))"

subsection \<open>Refinement, transformations and induction\<close>

text \<open>
  \<^verbatim>\<open>refinement\<close>: the intersections \<^verbatim>\<open>p.intersection(q)\<close> over
  \<^verbatim>\<open>itertools.product(self.atoms(), other.atoms())\<close>, those of positive volume kept in
  order, made into a partition from a list.
\<close>

definition refinement ::
  "('p, 'r::linordered_idom) polyhedra \<Rightarrow> 'p partition \<Rightarrow> 'p partition \<Rightarrow> 'p partition" where
  "refinement G self other =
     partition_of_list G
       (filter (\<lambda>p_q. 0 < poly_volume G p_q)
          (map (\<lambda>(p, q). poly_intersection G p q) (List.product (atoms self) (atoms other))))"

text \<open>
  \<^verbatim>\<open>apply_transformation\<close>: the loop over the items of \<^verbatim>\<open>self\<close> fills the
  dictionary \<^verbatim>\<open>d\<close>; the \<^verbatim>\<open>assert\<close> on the volumes is the error branch.
\<close>

fun apply_transformation_loop ::
  "('p, 'r) polyhedra \<Rightarrow> ('p \<Rightarrow> 'p) \<Rightarrow> (key \<times> 'p) list \<Rightarrow> (key \<times> 'p) list
     \<Rightarrow> 'r error + (key \<times> 'p) list" where
  "apply_transformation_loop G tr [] d = Inr d"
| "apply_transformation_loop G tr ((key, p) # items) d =
     (let trans_p = tr p
      in if poly_volume G p = poly_volume G trans_p
         then apply_transformation_loop G tr items (AList.update key trans_p d)
         else Inl AssertionError)"

definition apply_transformation ::
  "('p, 'r) polyhedra \<Rightarrow> 'p partition \<Rightarrow> ('p \<Rightarrow> 'p) \<Rightarrow> 'r error + 'p partition" where
  "apply_transformation G self tr =
     (case apply_transformation_loop G tr (the_atoms self) [] of
        Inl e \<Rightarrow> Inl e
      | Inr d \<Rightarrow> Inr (partition_of_dict G d))"

text \<open>
  \<^verbatim>\<open>rotation_mod(i, angle, mod, base_ring)\<close> returns the function \<^verbatim>\<open>trans\<close>; here
  \<open>rotation_mod G i angle modulus base_ring\<close> is that function. The coordinate \<open>i\<close> is
  an index into the vertices of the polyhedron.
\<close>

definition rotation_mod ::
  "('p, 'r::linordered_idom) polyhedra \<Rightarrow> nat \<Rightarrow> 'r \<Rightarrow> 'r \<Rightarrow> ring \<Rightarrow> 'p \<Rightarrow> 'p" where
  "rotation_mod G i angle modulus base_ring p =
     (let L =
        (if list_all (\<lambda>v. v ! i \<le> modulus - angle) (poly_vertices G p)
         then map (\<lambda>v. map (\<lambda>(j, vj). if j = i then vj + angle else vj) (enumerate 0 v))
                (poly_vertices G p)
         else map (\<lambda>v. map (\<lambda>(j, vj). if j = i then vj + angle - modulus else vj) (enumerate 0 v))
                (poly_vertices G p))
      in Polyhedron_vertices G L base_ring)"

text \<open>
  The \<^verbatim>\<open>while len(P)\<close> loop of \<^verbatim>\<open>induced_out_partition\<close>. The source puts no bound on
  the number of rounds, so the loop is a partial function: \<open>None\<close> is a loop that does
  not end. \<open>ans\<close> is the dictionary from return times to partitions.
\<close>

partial_function (option) induced_out_loop ::
  "('p, 'r::linordered_idom) polyhedra \<Rightarrow> 'p partition \<Rightarrow> ('p \<Rightarrow> 'p) \<Rightarrow> 'p partition
     \<Rightarrow> 'p partition \<Rightarrow> 'p partition \<Rightarrow> nat \<Rightarrow> (nat \<times> 'p partition) list
     \<Rightarrow> ('r error + (nat \<times> 'p partition) list) option" where
  "induced_out_loop G self tr half_part other_half_part P level ans =
     (if len P = 0 then Some (Inr ans)
      else
        let P_returned = refinement G P half_part;
            ans' = (if len P_returned \<noteq> 0 then AList.update level P_returned ans else ans);
            P1 = refinement G P other_half_part;
            P2 = refinement G P1 self
        in case apply_transformation G P2 tr of
             Inl e \<Rightarrow> Some (Inl e)
           | Inr P3 \<Rightarrow>
               induced_out_loop G self tr half_part other_half_part P3 (level + 1) ans')"

declare induced_out_loop.simps [code]

definition induced_out_partition ::
  "('p, 'r::linordered_idom) polyhedra \<Rightarrow> 'p partition \<Rightarrow> ('p \<Rightarrow> 'p) \<Rightarrow> 'r list
     \<Rightarrow> ('r error + (nat \<times> 'p partition) list) option" where
  "induced_out_partition G self tr ieq =
     (let half = Polyhedron_ieqs G [ieq];
          half_part = partition_of_list G [half];
          other_half = Polyhedron_ieqs G [map uminus ieq];
          other_half_part = partition_of_list G [other_half];
          P = refinement G self half_part
      in if len P = 0 then Some (Inl (ValueError (Ieq_does_not_intersect ieq (len self))))
         else
           case apply_transformation G P tr of
             Inl e \<Rightarrow> Some (Inl e)
           | Inr P' \<Rightarrow> induced_out_loop G self tr half_part other_half_part P' 1 [])"

subsection \<open>Coding, disjointness and key permutations\<close>

text \<open>
  \<^verbatim>\<open>code\<close>: \<open>L\<close> is the list of the keys whose atom contains \<open>p\<close>. The argument is a
  polyhedron by its type, so the \<^verbatim>\<open>TypeError\<close> of the source for an object without
  vertices cannot occur.
\<close>

definition code :: "('p, 'r) polyhedra \<Rightarrow> 'p partition \<Rightarrow> 'p \<Rightarrow> 'r error + key" where
  "code G self p =
     (let L = map fst (filter (\<lambda>(i, atom). poly_le G p atom) (the_atoms self))
      in if length L = 1 then Inr (hd L)
         else if length L > 1 then Inl (ValueError (In_several_atoms (poly_vertices G p) L))
         else Inl (ValueError (In_no_atom (poly_vertices G p))))"

text \<open>\<^verbatim>\<open>itertools.permutations(xs, 2)\<close>: the pairs of entries at two different positions.\<close>

definition permutations2 :: "'a list \<Rightarrow> ('a \<times> 'a) list" where
  "permutations2 xs =
     concat (map (\<lambda>(i, x). map snd (filter (\<lambda>(j, y). j \<noteq> i) (enumerate 0 (map (Pair x) xs))))
                 (enumerate 0 xs))"

text \<open>
  \<^verbatim>\<open>is_pairwise_disjoint\<close>: the loop over the pairs of keys. \<^verbatim>\<open>self[i]\<close> is a
  dictionary access.
\<close>

fun is_pairwise_disjoint_loop ::
  "('p, 'r::linordered_idom) polyhedra \<Rightarrow> 'p partition \<Rightarrow> (key \<times> key) list \<Rightarrow> 'r error + bool"
  where
  "is_pairwise_disjoint_loop G self [] = Inr True"
| "is_pairwise_disjoint_loop G self ((i, j) # rest) =
     (case getitem self i of
        None \<Rightarrow> Inl (KeyError i)
      | Some p \<Rightarrow>
          (case getitem self j of
             None \<Rightarrow> Inl (KeyError j)
           | Some q \<Rightarrow>
               (let volume = poly_volume G (poly_intersection G p q)
                in if 0 < volume
                   then Inl (ValueError (Intersection_not_zero i (poly_vertices G p)
                                           j (poly_vertices G q) volume))
                   else is_pairwise_disjoint_loop G self rest)))"

definition is_pairwise_disjoint ::
  "('p, 'r::linordered_idom) polyhedra \<Rightarrow> 'p partition \<Rightarrow> 'r error + bool" where
  "is_pairwise_disjoint G self =
     is_pairwise_disjoint_loop G self (permutations2 (map fst (the_atoms self)))"

text \<open>
  \<^verbatim>\<open>find_unused_key(d, sequence)\<close>: the first element of the sequence that is not in
  \<open>d\<close>. The sequences of the module are infinite (\<^verbatim>\<open>itertools.count()\<close>), so a sequence
  is a function on the naturals and the search is a partial function: \<open>None\<close> is a search
  that does not end.
\<close>

partial_function (option) find_unused_key_from ::
  "'a list \<Rightarrow> (nat \<Rightarrow> 'a) \<Rightarrow> nat \<Rightarrow> 'a option" where
  "find_unused_key_from d sequence n =
     (if sequence n \<notin> set d then Some (sequence n)
      else find_unused_key_from d sequence (n + 1))"

declare find_unused_key_from.simps [code]

definition find_unused_key :: "'a list \<Rightarrow> (nat \<Rightarrow> 'a) \<Rightarrow> 'a option" where
  "find_unused_key d sequence = find_unused_key_from d sequence 0"

text \<open>\<^verbatim>\<open>itertools.count()\<close>, as keys.\<close>

definition count :: "nat \<Rightarrow> key" where
  "count n = Int_key (int n)"

text \<open>
  \<^verbatim>\<open>keys_permutation\<close>. The first loop fills \<open>d\<close> for the atoms of \<^verbatim>\<open>self\<close> that are
  in \<^verbatim>\<open>other\<close> and collects the others; the second loop gives each of the others an
  unused key. \<^verbatim>\<open>other\<close> is a partition by its type.
\<close>

fun keys_permutation_first ::
  "('p, 'r) polyhedra \<Rightarrow> 'p partition \<Rightarrow> (key \<times> 'p) list \<Rightarrow> (key \<times> key) list
     \<Rightarrow> (key \<times> 'p) list \<Rightarrow> 'r error + (key \<times> key) list \<times> (key \<times> 'p) list" where
  "keys_permutation_first G other [] d atoms_not_in_other = Inr (d, atoms_not_in_other)"
| "keys_permutation_first G other ((self_key, p) # items) d atoms_not_in_other =
     (if contains G other p
      then (case code G other p of
              Inl e \<Rightarrow> Inl e
            | Inr other_key \<Rightarrow>
                keys_permutation_first G other items (AList.update self_key other_key d)
                  atoms_not_in_other)
      else keys_permutation_first G other items d (atoms_not_in_other @ [(self_key, p)]))"

fun keys_permutation_second ::
  "(key \<times> 'p) list \<Rightarrow> key list \<Rightarrow> (key \<times> key) list \<Rightarrow> (key \<times> key) list option" where
  "keys_permutation_second [] forbidden_keys d = Some d"
| "keys_permutation_second ((self_key, p) # items) forbidden_keys d =
     (case find_unused_key forbidden_keys count of
        None \<Rightarrow> None
      | Some new_key \<Rightarrow>
          keys_permutation_second items (new_key # forbidden_keys)
            (AList.update self_key new_key d))"

definition keys_permutation ::
  "('p, 'r) polyhedra \<Rightarrow> 'p partition \<Rightarrow> 'p partition \<Rightarrow> ('r error + (key \<times> key) list) option"
  where
  "keys_permutation G self other =
     (case keys_permutation_first G other (the_atoms self) [] [] of
        Inl e \<Rightarrow> Some (Inl e)
      | Inr (d, atoms_not_in_other) \<Rightarrow>
          map_option Inr
            (keys_permutation_second atoms_not_in_other (map fst (the_atoms other)) d))"

subsection \<open>A polyhedron primitive for the plane over the rationals\<close>

text \<open>
  The docstrings of the module work in \<open>QQ^2\<close>. For them the primitive is instantiated with
  polyhedra of the plane. As in Sage, a polyhedron carries both of its representations:
  its inequalities, \<open>(b, a1, a2)\<close> standing for \<open>b + a1 * x1 + a2 * x2 \<ge> 0\<close> (which Sage
  writes \<^verbatim>\<open>[b, a1, a2]\<close>), and its vertices. Every polyhedron is built from inequalities
  by \<open>Polyhedron_of_ieqs\<close>, which computes the vertices: the points of the polyhedron
  that lie on two boundary lines which are not parallel. The intersection is the
  polyhedron of the union of the constraints. Volume, inclusion and equality are
  computed from the vertices, which is right for bounded polyhedra, the only ones the
  module applies them to.
\<close>

type_synonym point = "rat \<times> rat"
type_synonym ieq = "rat \<times> rat \<times> rat"

record plane_polyhedron =
  ieqs :: "ieq list"
  verts :: "point list"

fun ieq_value :: "ieq \<Rightarrow> point \<Rightarrow> rat" where
  "ieq_value (b, a1, a2) (x, y) = b + a1 * x + a2 * y"

fun satisfies :: "ieq list \<Rightarrow> point \<Rightarrow> bool" where
  "satisfies [] v = True"
| "satisfies (h # H) v = (if 0 \<le> ieq_value h v then satisfies H v else False)"

text \<open>The point where the boundary lines of two inequalities meet, if they are not parallel.\<close>

fun meet :: "ieq \<Rightarrow> ieq \<Rightarrow> point option" where
  "meet (b, a1, a2) (d, c1, c2) =
     (if a1 * c2 - a2 * c1 = 0 then None
      else Some ((a2 * d - b * c2) / (a1 * c2 - a2 * c1), (b * c1 - a1 * d) / (a1 * c2 - a2 * c1)))"

fun pairs :: "'a list \<Rightarrow> ('a \<times> 'a) list" where
  "pairs [] = []"
| "pairs (x # xs) = map (Pair x) xs @ pairs xs"

definition plane_vertices :: "ieq list \<Rightarrow> point list" where
  "plane_vertices H =
     remdups (filter (satisfies H) (List.map_filter (\<lambda>(g, h). meet g h) (pairs H)))"

definition Polyhedron_of_ieqs :: "ieq list \<Rightarrow> plane_polyhedron" where
  "Polyhedron_of_ieqs H = \<lparr> ieqs = H, verts = plane_vertices H \<rparr>"

text \<open>\<open>cross u v w\<close> is positive when \<open>w\<close> is on the left of the line from \<open>u\<close> to \<open>v\<close>.\<close>

fun cross :: "point \<Rightarrow> point \<Rightarrow> point \<Rightarrow> rat" where
  "cross (u1, u2) (v1, v2) (w1, w2) = (v1 - u1) * (w2 - u2) - (v2 - u2) * (w1 - u1)"

definition left_edges :: "point list \<Rightarrow> (point \<times> point) list" where
  "left_edges V =
     filter (\<lambda>(u, v). u \<noteq> v \<and> list_all (\<lambda>w. 0 \<le> cross u v w) V) (List.product V V)"

fun edge_ieq :: "point \<Rightarrow> point \<Rightarrow> ieq" where
  "edge_ieq (u1, u2) (v1, v2) = ((v2 - u2) * u1 - (v1 - u1) * u2, - (v2 - u2), v1 - u1)"

definition bounding_box :: "point list \<Rightarrow> ieq list" where
  "bounding_box L =
     (let xs = map fst L; ys = map snd L
      in [(- fold min (tl xs) (hd xs), 1, 0), (fold max (tl xs) (hd xs), - 1, 0),
          (- fold min (tl ys) (hd ys), 0, 1), (fold max (tl ys) (hd ys), 0, - 1)])"

definition collinear :: "point list \<Rightarrow> bool" where
  "collinear L = list_all (\<lambda>v. list_all (\<lambda>w. cross (hd L) v w = 0) L) L"

text \<open>
  The convex hull of a list of points: the lines through two of the points that have
  all points on their left and, when the points lie on one line, the box around them.
  No point gives the empty polyhedron.
\<close>

definition plane_hull :: "point list \<Rightarrow> ieq list" where
  "plane_hull L =
     (if L = [] then [(- 1, 0, 0)]
      else (if collinear L then bounding_box L else [])
           @ map (\<lambda>(u, v). edge_ieq u v) (left_edges (remdups L)))"

text \<open>The area inside the vertices \<open>V\<close> of a bounded polyhedron, by the shoelace formula.\<close>

definition area :: "point list \<Rightarrow> rat" where
  "area V = (\<Sum>((u1, u2), (v1, v2)) \<leftarrow> left_edges (remdups V). u1 * v2 - u2 * v1) / 2"

definition plane_le :: "plane_polyhedron \<Rightarrow> plane_polyhedron \<Rightarrow> bool" where
  "plane_le P Q = list_all (satisfies (ieqs Q)) (verts P)"

definition plane_eq :: "plane_polyhedron \<Rightarrow> plane_polyhedron \<Rightarrow> bool" where
  "plane_eq P Q = (set (verts P) = set (verts Q))"

definition plane :: "(plane_polyhedron, rat) polyhedra" where
  "plane =
     \<lparr> Polyhedron_vertices =
         (\<lambda>L base_ring. Polyhedron_of_ieqs (plane_hull (map (\<lambda>v. (v ! 0, v ! 1)) L))),
       Polyhedron_ieqs = (\<lambda>H. Polyhedron_of_ieqs (map (\<lambda>h. (h ! 0, h ! 1, h ! 2)) H)),
       poly_vertices = (\<lambda>P. map (\<lambda>(x, y). [x, y]) (verts P)),
       poly_volume = (\<lambda>P. area (verts P)),
       poly_intersection = (\<lambda>P Q. Polyhedron_of_ieqs (ieqs P @ ieqs Q)),
       poly_le = plane_le,
       poly_eq = plane_eq,
       poly_base_ring = (\<lambda>_. QQ) \<rparr>"

text \<open>
  The partition of the docstrings: the unit square cut into two triangles and two
  quadrilaterals that meet at \<open>x = h\<close>, under the keys 0, 1, 2 and 3.
\<close>

definition example_partition :: "rat \<Rightarrow> plane_polyhedron partition" where
  "example_partition h =
     partition_of_dict plane
       [(Int_key 0, Polyhedron_vertices plane [[0, h], [0, 1], [h, 1]] QQ),
        (Int_key 1, Polyhedron_vertices plane [[0, 0], [0, h], [h, 1], [h, 0]] QQ),
        (Int_key 2, Polyhedron_vertices plane [[h, 1], [1, 1], [1, h], [h, 0]] QQ),
        (Int_key 3, Polyhedron_vertices plane [[h, 0], [1, 0], [1, h]] QQ)]"

section \<open>Properties\<close>

subsection \<open>The constructor\<close>

lemma dict_enumerate_zip:
  "dict_enumerate L = zip (map (\<lambda>i. Int_key (int i)) [0..<length L]) L"
  by (simp add: dict_enumerate_def enumerate_eq_zip zip_map1)

lemma the_atoms_init_base_ring [simp]: "the_atoms (init_base_ring G d b) = d"
  by (simp add: init_base_ring_def)

lemma the_atoms_partition_of_list [simp]:
  "the_atoms (partition_of_list G L) = dict_enumerate L"
  by (simp add: partition_of_list_def)

lemma the_atoms_partition_of_dict [simp]: "the_atoms (partition_of_dict G d) = d"
  by (simp add: partition_of_dict_def)

lemma atoms_partition_of_list [simp]: "atoms (partition_of_list G L) = L"
  by (simp add: atoms_def dict_enumerate_zip)

lemma len_partition_of_list [simp]: "len (partition_of_list G L) = length L"
  by (simp add: len_def dict_enumerate_zip)

text \<open>
  C8. A partition made from a list of \<open>n\<close> atoms has the keys \<open>0, ..., n - 1\<close> in order,
  the \<open>i\<close>-th atom under the key \<open>i\<close>; a partition made from a dictionary keeps the
  dictionary; any other argument raises \<^verbatim>\<open>TypeError\<close>.
\<close>

theorem PolyhedronPartition_keys:
  "(\<exists>P. PolyhedronPartition G (List_arg L) base_ring = Inr P
        \<and> the_atoms P = zip (map (\<lambda>i. Int_key (int i)) [0..<length L]) L)
   \<and> (\<exists>P. PolyhedronPartition G (Dict_arg d) base_ring = Inr P \<and> the_atoms P = d)
   \<and> PolyhedronPartition G Other_arg base_ring = Inl (TypeError Atoms_not_list_or_dict)"
  by (simp add: PolyhedronPartition_def dict_enumerate_zip)

text \<open>
  C9 as stated fails: the constructor called with no atoms and no base ring raises
  nothing. It returns a partition, here for the empty list.
\<close>

theorem PolyhedronPartition_empty_counterexample:
  "PolyhedronPartition plane (List_arg []) None
     = Inr \<lparr> the_atoms = [], the_base_ring = None \<rparr>"
  by (simp add: PolyhedronPartition_def init_base_ring_def dict_enumerate_def)

text \<open>
  C9, amended. Constructing a partition from no atoms (an empty list or an empty
  dictionary) without a base ring succeeds and gives a partition of length 0.
\<close>

theorem PolyhedronPartition_empty:
  "(\<exists>P. PolyhedronPartition G (List_arg []) None = Inr P \<and> len P = 0)
   \<and> (\<exists>P. PolyhedronPartition G (Dict_arg []) None = Inr P \<and> len P = 0)"
  by (simp add: PolyhedronPartition_def len_def dict_enumerate_def)

subsection \<open>Evaluating the plane primitive\<close>

text \<open>
  The rules below evaluate the functions of the module on polyhedra of the plane. The
  congruence rules make the simplifier evaluate the list argument of a list function
  first and leave the function argument alone.
\<close>

lemma plane_sel:
  "Polyhedron_vertices plane L r = Polyhedron_of_ieqs (plane_hull (map (\<lambda>v. (v ! 0, v ! 1)) L))"
  "Polyhedron_ieqs plane H = Polyhedron_of_ieqs (map (\<lambda>h. (h ! 0, h ! 1, h ! 2)) H)"
  "poly_vertices plane P = map (\<lambda>(x, y). [x, y]) (verts P)"
  "poly_volume plane P = area (verts P)"
  "poly_intersection plane P Q = Polyhedron_of_ieqs (ieqs P @ ieqs Q)"
  "poly_le plane = plane_le"
  "poly_eq plane = plane_eq"
  "poly_base_ring plane P = QQ"
  by (simp_all add: plane_def)

lemma rotation_mod_let:
  "rotation_mod G i angle modulus base_ring p =
     (let V = poly_vertices G p
      in if list_all (\<lambda>v. v ! i \<le> modulus - angle) V
         then Polyhedron_vertices G
                (map (\<lambda>v. map (\<lambda>(j, vj). if j = i then vj + angle else vj) (enumerate 0 v)) V)
                base_ring
         else Polyhedron_vertices G
                (map (\<lambda>v. map (\<lambda>(j, vj). if j = i then vj + angle - modulus else vj)
                           (enumerate 0 v)) V)
                base_ring)"
  by (simp add: rotation_mod_def Let_def)

lemmas plane_eval = plane_sel plane_vertices_def List.map_filter_def Polyhedron_of_ieqs_def
  area_def left_edges_def plane_hull_def bounding_box_def collinear_def
  plane_le_def plane_eq_def

lemmas partition_eval = refinement_def apply_transformation_def partition_of_list_def
  partition_of_dict_def init_base_ring_def dict_enumerate_def atoms_def len_def
  rotation_mod_let Let_def example_partition_def

lemma left_edges_cong: "V = V' \<Longrightarrow> left_edges V = left_edges V'"
  by simp

lemma filter_arg_cong: "xs = ys \<Longrightarrow> filter P xs = filter P ys"
  by simp

lemma remdups_arg_cong: "xs = ys \<Longrightarrow> remdups xs = remdups ys"
  by simp

lemma map_arg_cong: "xs = ys \<Longrightarrow> map f xs = map f ys"
  by simp

lemma sum_list_arg_cong: "xs = ys \<Longrightarrow> sum_list xs = sum_list ys"
  by simp

lemma list_all_arg_cong: "xs = ys \<Longrightarrow> list_all P xs = list_all P ys"
  by simp

lemma list_ex_arg_cong: "xs = ys \<Longrightarrow> list_ex P xs = list_ex P ys"
  by simp

lemma apply_transformation_loop_arg_cong:
  "xs = ys \<Longrightarrow> d = d'
   \<Longrightarrow> apply_transformation_loop G tr xs d = apply_transformation_loop G tr ys d'"
  by simp

lemmas eval_cong = left_edges_cong filter_arg_cong remdups_arg_cong map_arg_cong
  sum_list_arg_cong list_all_arg_cong list_ex_arg_cong let_weak_cong
  apply_transformation_loop_arg_cong

text \<open>The area depends on the set of the vertices only.\<close>

lemma area_set:
  "area V = (\<Sum>((u1, u2), (v1, v2)) \<in> {(u, v). u \<in> set V \<and> v \<in> set V \<and> u \<noteq> v
                 \<and> (\<forall>w\<in>set V. 0 \<le> cross u v w)}. u1 * v2 - u2 * v1) / 2"
proof -
  have d: "distinct (left_edges (remdups V))"
    by (simp add: left_edges_def distinct_product)
  have s: "set (left_edges (remdups V))
             = {(u, v). u \<in> set V \<and> v \<in> set V \<and> u \<noteq> v \<and> (\<forall>w\<in>set V. 0 \<le> cross u v w)}"
    by (auto simp: left_edges_def list_all_iff)
  show ?thesis
    unfolding area_def by (simp add: sum_list_distinct_conv_sum_set [OF d] s)
qed

lemma plane_eq_volume: "poly_eq plane a b \<Longrightarrow> poly_volume plane a = poly_volume plane b"
  by (simp add: plane_sel plane_eq_def area_set)

lemma plane_eq_sym: "poly_eq plane a b \<Longrightarrow> poly_eq plane b a"
  by (simp add: plane_sel plane_eq_def)

lemma example_keys:
  "map fst (the_atoms (example_partition h)) = [Int_key 0, Int_key 1, Int_key 2, Int_key 3]"
  by (simp add: example_partition_def)

subsection \<open>Applying a transformation\<close>

lemma update_fresh: "k \<notin> fst ` set al \<Longrightarrow> AList.update k v al = al @ [(k, v)]"
  by (induction al) auto

lemma fst_comp_item [simp]: "fst \<circ> (\<lambda>(k, p). (k, f p)) = fst"
  by (auto simp: fun_eq_iff)

lemma snd_comp_item [simp]: "snd \<circ> (\<lambda>(k, p). (k, f p)) = f \<circ> snd"
  by (auto simp: fun_eq_iff)

lemma apply_transformation_loop_ok:
  "distinct (map fst items) \<Longrightarrow> fst ` set items \<inter> fst ` set d = {}
   \<Longrightarrow> \<forall>p\<in>snd ` set items. poly_volume G (tr p) = poly_volume G p
   \<Longrightarrow> apply_transformation_loop G tr items d = Inr (d @ map (\<lambda>(k, p). (k, tr p)) items)"
proof (induction items arbitrary: d)
  case Nil
  then show ?case by simp
next
  case (Cons kp items)
  obtain k p where kp: "kp = (k, p)" by (cases kp)
  from Cons.prems kp have fresh: "k \<notin> fst ` set d" by auto
  have upd: "AList.update k (tr p) d = d @ [(k, tr p)]"
    using fresh by (rule update_fresh)
  have disj: "fst ` set items \<inter> fst ` set (d @ [(k, tr p)]) = {}"
    using Cons.prems kp by auto
  have "apply_transformation_loop G tr items (d @ [(k, tr p)])
          = Inr ((d @ [(k, tr p)]) @ map (\<lambda>(k, p). (k, tr p)) items)"
    using Cons.prems kp disj by (intro Cons.IH) auto
  then show ?case using Cons.prems kp upd by (simp add: Let_def)
qed

lemma apply_transformation_ok:
  assumes "distinct (map fst (the_atoms P))"
    and "\<forall>p\<in>set (atoms P). poly_volume G (tr p) = poly_volume G p"
  shows "apply_transformation G P tr
           = Inr (partition_of_dict G (map (\<lambda>(k, p). (k, tr p)) (the_atoms P)))"
  using apply_transformation_loop_ok [of "the_atoms P" "[]" G tr] assms
  by (simp add: apply_transformation_def atoms_def)

text \<open>
  C10. When \<open>tr\<close> keeps the volume of every atom of \<open>P\<close>, \<^verbatim>\<open>P.apply_transformation(tr)\<close>
  returns a partition with the keys of \<open>P\<close>, in the same order, that holds under each key
  the image by \<open>tr\<close> of the atom of \<open>P\<close> under that key, and holds nothing under any other key.
  \<open>P\<close> is a value and the function returns a new one, so \<open>P\<close> itself is unchanged.
\<close>

theorem apply_transformation_keys:
  assumes "distinct (map fst (the_atoms P))"
    and "\<forall>p\<in>set (atoms P). poly_volume G (tr p) = poly_volume G p"
  shows "\<exists>Q. apply_transformation G P tr = Inr Q
            \<and> map fst (the_atoms Q) = map fst (the_atoms P)
            \<and> (\<forall>k. getitem Q k = map_option tr (getitem P k))"
  using apply_transformation_ok [OF assms]
  by (auto simp: getitem_def map_of_map)

theorem apply_transformation_keys_witness:
  "distinct (map fst (the_atoms (example_partition (1 / 3))))
   \<and> list_all (\<lambda>p. poly_volume plane (rotation_mod plane 0 (2 / 3) 1 QQ p) = poly_volume plane p)
         (atoms (example_partition (1 / 3)))
   \<and> (\<exists>Q. apply_transformation plane (example_partition (1 / 3))
            (rotation_mod plane 0 (2 / 3) 1 QQ) = Inr Q
          \<and> map fst (the_atoms Q) = map fst (the_atoms (example_partition (1 / 3)))
          \<and> (\<forall>k. getitem Q k
                 = map_option (rotation_mod plane 0 (2 / 3) 1 QQ)
                     (getitem (example_partition (1 / 3)) k)))"
proof -
  have keys: "distinct (map fst (the_atoms (example_partition (1 / 3))))"
    by (simp add: example_keys)
  have vol: "list_all
      (\<lambda>p. poly_volume plane (rotation_mod plane 0 (2 / 3) 1 QQ p) = poly_volume plane p)
      (atoms (example_partition (1 / 3)))"
    by (simp add: plane_eval partition_eval cong: eval_cong)
  from apply_transformation_keys [OF keys vol [unfolded list_all_iff]] keys vol
  show ?thesis by blast
qed

text \<open>
  C2. Let \<open>f\<close> keep the volume of every atom of \<open>P\<close> and let \<open>f_inv (f p) == p\<close> for every
  atom \<open>p\<close> of \<open>P\<close>. Then \<^verbatim>\<open>P.apply_transformation(f).apply_transformation(f_inv)\<close>
  raises nothing and is equal to \<open>P\<close> (\<^verbatim>\<open>__eq__\<close>: the same set of atoms). The equality
  of the polyhedron primitive is taken to be symmetric and to give equal volumes.
\<close>

theorem apply_transformation_round_trip:
  assumes keys: "distinct (map fst (the_atoms P))"
    and inv: "\<forall>p\<in>set (atoms P). poly_eq G (f_inv (f p)) p"
    and vol: "\<forall>p\<in>set (atoms P). poly_volume G (f p) = poly_volume G p"
    and eq_vol: "\<forall>a b. poly_eq G a b \<longrightarrow> poly_volume G a = poly_volume G b"
    and eq_sym: "\<forall>a b. poly_eq G a b \<longrightarrow> poly_eq G b a"
  shows "\<exists>Q R. apply_transformation G P f = Inr Q \<and> apply_transformation G Q f_inv = Inr R
              \<and> partition_eq G R P"
proof -
  let ?Q = "partition_of_dict G (map (\<lambda>(k, p). (k, f p)) (the_atoms P))"
  let ?R = "partition_of_dict G (map (\<lambda>(k, p). (k, f_inv p)) (the_atoms ?Q))"
  have Q: "apply_transformation G P f = Inr ?Q"
    using keys vol by (rule apply_transformation_ok)
  have atoms_Q: "atoms ?Q = map f (atoms P)"
    by (auto simp: atoms_def)
  have "\<forall>q\<in>set (atoms ?Q). poly_volume G (f_inv q) = poly_volume G q"
    using inv vol eq_vol unfolding atoms_Q by auto
  moreover have "distinct (map fst (the_atoms ?Q))"
    using keys by simp
  ultimately have R: "apply_transformation G ?Q f_inv = Inr ?R"
    by (rule apply_transformation_ok [rotated])
  have atoms_R: "atoms ?R = map (\<lambda>p. f_inv (f p)) (atoms P)"
    by (auto simp: atoms_def)
  have "partition_eq G ?R P"
    using inv eq_sym unfolding partition_eq_def contains_def atoms_R
    by (auto simp: list_all_iff list_ex_iff)
  with Q R show ?thesis by blast
qed

theorem apply_transformation_round_trip_witness:
  "distinct (map fst (the_atoms (example_partition (1 / 3))))
   \<and> list_all
        (\<lambda>p. poly_eq plane
               (rotation_mod plane 0 (1 / 3) 1 QQ (rotation_mod plane 0 (2 / 3) 1 QQ p)) p)
        (atoms (example_partition (1 / 3)))
   \<and> list_all (\<lambda>p. poly_volume plane (rotation_mod plane 0 (2 / 3) 1 QQ p) = poly_volume plane p)
        (atoms (example_partition (1 / 3)))
   \<and> (\<exists>Q R. apply_transformation plane (example_partition (1 / 3))
              (rotation_mod plane 0 (2 / 3) 1 QQ) = Inr Q
            \<and> apply_transformation plane Q (rotation_mod plane 0 (1 / 3) 1 QQ) = Inr R
            \<and> partition_eq plane R (example_partition (1 / 3)))"
proof -
  have keys: "distinct (map fst (the_atoms (example_partition (1 / 3))))"
    by (simp add: example_keys)
  have inv: "list_all
      (\<lambda>p. poly_eq plane
             (rotation_mod plane 0 (1 / 3) 1 QQ (rotation_mod plane 0 (2 / 3) 1 QQ p)) p)
      (atoms (example_partition (1 / 3)))"
    by (simp add: plane_eval partition_eval cong: eval_cong) auto
  have vol: "list_all
      (\<lambda>p. poly_volume plane (rotation_mod plane 0 (2 / 3) 1 QQ p) = poly_volume plane p)
      (atoms (example_partition (1 / 3)))"
    by (simp add: plane_eval partition_eval cong: eval_cong)
  have eq_vol: "\<forall>a b. poly_eq plane a b \<longrightarrow> poly_volume plane a = poly_volume plane b"
    using plane_eq_volume by blast
  have eq_sym: "\<forall>a b. poly_eq plane a b \<longrightarrow> poly_eq plane b a"
    using plane_eq_sym by blast
  from apply_transformation_round_trip
         [OF keys inv [unfolded list_all_iff] vol [unfolded list_all_iff] eq_vol eq_sym]
       keys inv vol
  show ?thesis by blast
qed

end
